theory Spec2Isabelle
  imports Main
begin

section \<open>yarpc: the server's command registry and request dispatch\<close>

text \<open>
  A shallow embedding of \<^verbatim>\<open>src/yarpc/server.py\<close> (class \<^verbatim>\<open>Server\<close>). Methods take the
  server object as their first argument and return the updated object; a method that
  can raise returns the raised exception next to the object as it is when the exception
  leaves the method. A handler runs on the server object as well: it gets the request,
  which refers back to the server, and so can reply or change the registry while it
  runs. Logging calls are left out: they do not touch the server object.
\<close>

subsection \<open>Values\<close>

text \<open>
  \<^verbatim>\<open>StatusCode\<close> is imported from \<^verbatim>\<open>enums.py\<close>; \<^verbatim>\<open>server.py\<close> names the members
  \<^verbatim>\<open>UNKNOWN_COMMAND\<close>, \<^verbatim>\<open>BAD_PARAMS\<close> and \<^verbatim>\<open>INTERNAL_ERROR\<close>, and the specification
  gives \<^verbatim>\<open>OK\<close> as the fourth.
\<close>

datatype StatusCode = OK | UNKNOWN_COMMAND | BAD_PARAMS | INTERNAL_ERROR

text \<open>
  Python values as far as the dispatch code inspects them: \<^verbatim>\<open>None\<close>, the sentinel
  \<^verbatim>\<open>NoValue\<close> of \<^verbatim>\<open>constants.py\<close> (compared by identity in \<^verbatim>\<open>Server.reply\<close>), strings,
  and for payloads booleans, integers, lists and dictionaries (insertion ordered, keyed by
  strings). \<open>StatusValue c\<close> is \<^verbatim>\<open>c.value\<close>, the value of an enumeration member, whose
  concrete number is declared in \<^verbatim>\<open>enums.py\<close>.
\<close>

datatype pyval =
    PyNone
  | NoValue
  | PyBool bool
  | PyInt int
  | PyStr string
  | PyList "pyval list"
  | PyDict "(string \<times> pyval) list"
  | StatusValue StatusCode

type_synonym pydict = "(string \<times> pyval) list"

subsection \<open>Exceptions\<close>

text \<open>
  \<^verbatim>\<open>register_command\<close> and \<^verbatim>\<open>remove_command\<close> raise \<^verbatim>\<open>ValueError(fmt, index)\<close>: the
  format string and the index are passed as two arguments, so the exception carries both
  as they are.
\<close>

datatype error = ValueError string int

text \<open>
  An exception raised by a handler is described by what \<^verbatim>\<open>_handle_request\<close> looks at:
  which of the classes named in its \<^verbatim>\<open>except\<close> clauses it is an instance of, and
  \<^verbatim>\<open>str(e)\<close>. \<open>TypeError\<close> stands for \<^verbatim>\<open>TypeError\<close> and its subclasses, \<open>Exception\<close> for
  every other subclass of \<^verbatim>\<open>Exception\<close>, \<open>BaseException\<close> for the exceptions that do not
  derive from \<^verbatim>\<open>Exception\<close> (\<^verbatim>\<open>SystemExit\<close>, \<^verbatim>\<open>KeyboardInterrupt\<close>, and from
  Python 3.8 on \<^verbatim>\<open>asyncio.CancelledError\<close>).
\<close>

datatype exc_class = TypeError | Exception | BaseException

datatype pyexc = PyExc (exc_class: exc_class) (exc_str: string)

subsection \<open>Requests, handlers and the server object\<close>

text \<open>
  A \<^verbatim>\<open>Request\<close> (class of \<^verbatim>\<open>request.py\<close>): \<^verbatim>\<open>server.py\<close> reads \<^verbatim>\<open>command_index\<close> and
  \<^verbatim>\<open>_data\<close>; the originating address, absent when no reply is expected, is the third
  attribute the specification lists. The back-reference to the server is the server
  argument of the functions below.
\<close>

record request =
  command_index :: int
  data :: pydict
  address :: "string option"

text \<open>
  The server object: \<^verbatim>\<open>_node\<close>, \<^verbatim>\<open>_commands\<close> (a dictionary from index to handler), and
  \<open>sent\<close>, the messages handed to the transport so far, oldest first. The registry
  holds function objects, of type \<open>'f\<close>; what a function object does when it is called is
  given separately (\<open>code\<close> below), since it acts on the server that holds it.
\<close>

datatype encoded = Encoded pydict

record 'f server =
  node :: string
  commands :: "int \<rightharpoonup> 'f"
  sent :: "encoded list"

text \<open>
  A handler is arbitrary user code. \<^verbatim>\<open>_handle_request\<close> performs two steps with it: the
  call \<^verbatim>\<open>fn(request, **request._data)\<close>, which raises or returns an object, and
  \<^verbatim>\<open>await command\<close> on that object, which raises or returns a value. Either step runs
  handler code with access to the server (through \<^verbatim>\<open>request.reply\<close>, \<^verbatim>\<open>Server.reply\<close>,
  \<^verbatim>\<open>register_command\<close>, \<^verbatim>\<open>remove_command\<close>), so each step is a function of the server
  that returns its outcome and the server as it leaves it. A handler runs to completion
  or failure.
\<close>

datatype awaited = Raised pyexc | Returned pyval

datatype 'f called = CallRaised pyexc | CallReturned "'f server \<Rightarrow> awaited \<times> 'f server"

type_synonym 'f command = "request \<Rightarrow> pydict \<Rightarrow> 'f server \<Rightarrow> 'f called \<times> 'f server"

type_synonym 'f code = "'f \<Rightarrow> 'f command"

text \<open>
  \<^verbatim>\<open>Server.__init__\<close>: the node is the given one, or a fresh \<^verbatim>\<open>uuid.uuid4().hex\<close>, taken
  here as the argument \<open>uuid\<close>; the registry starts empty.
\<close>

definition init :: "string \<Rightarrow> string option \<Rightarrow> 'f server" where
  "init uuid node' =
     \<lparr>node = (case node' of None \<Rightarrow> uuid | Some n \<Rightarrow> n),
      commands = Map.empty,
      sent = []\<rparr>"

subsection \<open>The command registry\<close>

definition register_command :: "'f server \<Rightarrow> int \<Rightarrow> 'f \<Rightarrow> (error + int) \<times> 'f server" where
  "register_command self index fn =
     (case commands self index of
        Some _ \<Rightarrow> (Inl (ValueError ''Command with index %d already registered'' index), self)
      | None \<Rightarrow> (Inr index, self\<lparr>commands := (commands self)(index \<mapsto> fn)\<rparr>))"

definition remove_command :: "'f server \<Rightarrow> int \<Rightarrow> (error + 'f) \<times> 'f server" where
  "remove_command self index =
     (case commands self index of
        None \<Rightarrow> (Inl (ValueError ''Command with index %d is not registered'' index), self)
      | Some fn \<Rightarrow> (Inr fn, self\<lparr>commands := (commands self)(index := None)\<rparr>))"

subsection \<open>Replying\<close>

text \<open>
  Modelled from the spec: \<^verbatim>\<open>Connection._dumps\<close> and \<^verbatim>\<open>Connection._send_response\<close>
  (\<^verbatim>\<open>connection.py\<close> is not among the sources). The specification treats serialization and
  transport as opaque services, \<^verbatim>\<open>encode(mapping) -> bytes\<close> and
  \<^verbatim>\<open>send(encoded_bytes) -> awaitable<done>\<close>, and fixes the reply's logical shape only. An
  encoded message is represented by the mapping it encodes, and sending appends it to
  what the transport has received.
\<close>

definition dumps :: "pydict \<Rightarrow> encoded" where
  "dumps payload = Encoded payload"

definition send_response :: "'f server \<Rightarrow> encoded \<Rightarrow> 'f server" where
  "send_response self msg = self\<lparr>sent := sent self @ [msg]\<rparr>"

text \<open>\<^verbatim>\<open>Server.reply(*, address, status, data)\<close>.\<close>

definition reply :: "'f server \<Rightarrow> string option \<Rightarrow> StatusCode \<Rightarrow> pyval \<Rightarrow> 'f server" where
  "reply self address' status data' =
     (case address' of
        None \<Rightarrow> self
      | Some a \<Rightarrow>
          (let payload = [(''s'', StatusValue status), (''n'', PyStr (node self)), (''a'', PyStr a)];
               payload = (if data' \<noteq> NoValue then payload @ [(''d'', data')] else payload)
           in send_response self (dumps payload)))"

text \<open>
  Modelled from the spec: \<^verbatim>\<open>Request._reply_with_status(data=NoValue, status=OK)\<close> and
  \<^verbatim>\<open>Request.reply(data)\<close> (\<^verbatim>\<open>request.py\<close> is not among the sources; \<^verbatim>\<open>server.py\<close>
  calls them). By the specification a request replies through its server's reply
  operation with its own address; the unknown-command reply, which passes no data, has no
  payload, and the reply of a handler's result has status \<^verbatim>\<open>OK\<close>.
\<close>

definition reply_with_status ::
  "'f server \<Rightarrow> request \<Rightarrow> pyval \<Rightarrow> StatusCode \<Rightarrow> 'f server" where
  "reply_with_status self request data' status = reply self (address request) status data'"

definition request_reply :: "'f server \<Rightarrow> request \<Rightarrow> pyval \<Rightarrow> 'f server" where
  "request_reply self request data' = reply_with_status self request data' OK"

subsection \<open>Dispatch\<close>

text \<open>
  \<^verbatim>\<open>Server._handle_request(request)\<close>, for handlers whose behaviour is \<open>code\<close>. The result
  is the exception that leaves the coroutine, if any, and the server object.
  \<^verbatim>\<open>except TypeError\<close> around the call catches the class \<open>TypeError\<close> only;
  \<^verbatim>\<open>except Exception\<close> around the await catches every class but \<open>BaseException\<close>. The
  replies act on the server as the handler has left it.
\<close>

definition handle_request :: "'f code \<Rightarrow> 'f server \<Rightarrow> request \<Rightarrow> pyexc option \<times> 'f server" where
  "handle_request code self request =
     (case commands self (command_index request) of
        None \<Rightarrow> (None, reply_with_status self request NoValue UNKNOWN_COMMAND)
      | Some fn \<Rightarrow>
          (case code fn request (data request) self of
             (CallRaised e, self) \<Rightarrow>
               (if exc_class e = TypeError
                then (None, reply_with_status self request (PyStr (exc_str e)) BAD_PARAMS)
                else (Some e, self))
           | (CallReturned command, self) \<Rightarrow>
               (case command self of
                  (Raised e, self) \<Rightarrow>
                    (if exc_class e \<noteq> BaseException
                     then (None, reply_with_status self request (PyStr (exc_str e)) INTERNAL_ERROR)
                     else (Some e, self))
                | (Returned command_result, self) \<Rightarrow>
                    (if command_result = PyNone then (None, self)
                     else (None, request_reply self request command_result)))))"

text \<open>
  The server as the handler of a request leaves it, before \<^verbatim>\<open>_handle_request\<close> replies:
  the server itself when no handler is registered, the server after the call when the
  call raises, and the server after the await otherwise. What \<open>handle_request\<close> sends
  itself is what it adds to this.
\<close>

definition after_handler :: "'f code \<Rightarrow> 'f server \<Rightarrow> request \<Rightarrow> 'f server" where
  "after_handler code self request =
     (case commands self (command_index request) of
        None \<Rightarrow> self
      | Some fn \<Rightarrow>
          (case code fn request (data request) self of
             (CallRaised e, self) \<Rightarrow> self
           | (CallReturned command, self) \<Rightarrow> snd (command self)))"

subsection \<open>Example handlers\<close>

text \<open>
  Function objects and a server used to instantiate the theorems below, with their code.
  \<open>ReturnsOk\<close> is the handler of the specification's end-to-end example; \<open>TakesX\<close> is
  \<^verbatim>\<open>async def h(request, x): return x\<close>, whose call raises \<^verbatim>\<open>TypeError\<close> unless the
  payload has exactly the field \<^verbatim>\<open>x\<close>; \<open>Fails\<close> raises a \<^verbatim>\<open>RuntimeError\<close> when awaited;
  \<open>Silent\<close> returns \<^verbatim>\<open>None\<close>; \<open>Rejects\<close> is a plain function that raises a
  \<^verbatim>\<open>ValueError\<close> when called; \<open>Exits\<close> raises \<^verbatim>\<open>SystemExit\<close> when awaited;
  \<open>RepliesItself\<close> awaits \<^verbatim>\<open>request.reply("done")\<close> and returns \<^verbatim>\<open>None\<close>;
  \<open>RepliesAndReturns\<close> awaits \<^verbatim>\<open>request.reply("done")\<close> and returns \<^verbatim>\<open>"ok"\<close>;
  \<open>RemovesThenFails\<close> calls \<^verbatim>\<open>remove_command(7)\<close> on the server and then raises a
  \<^verbatim>\<open>RuntimeError\<close>.
\<close>

datatype example =
    ReturnsOk | TakesX | Fails | Silent | Rejects | Exits
  | RepliesItself | RepliesAndReturns | RemovesThenFails

fun examples :: "example code" where
  "examples ReturnsOk request kwargs self =
     (CallReturned (\<lambda>s. (Returned (PyDict [(''ok'', PyBool True)]), s)), self)"
| "examples TakesX request kwargs self =
     (case kwargs of
        [(k, v)] \<Rightarrow>
          (if k = ''x'' then (CallReturned (\<lambda>s. (Returned v, s)), self)
           else (CallRaised (PyExc TypeError ''got an unexpected keyword argument''), self))
      | _ \<Rightarrow> (CallRaised (PyExc TypeError ''missing 1 required positional argument''), self))"
| "examples Fails request kwargs self =
     (CallReturned (\<lambda>s. (Raised (PyExc Exception ''boom''), s)), self)"
| "examples Silent request kwargs self =
     (CallReturned (\<lambda>s. (Returned PyNone, s)), self)"
| "examples Rejects request kwargs self =
     (CallRaised (PyExc Exception ''rejected''), self)"
| "examples Exits request kwargs self =
     (CallReturned (\<lambda>s. (Raised (PyExc BaseException ''bye''), s)), self)"
| "examples RepliesItself request kwargs self =
     (CallReturned (\<lambda>s. (Returned PyNone, request_reply s request (PyStr ''done''))), self)"
| "examples RepliesAndReturns request kwargs self =
     (CallReturned (\<lambda>s. (Returned (PyStr ''ok''), request_reply s request (PyStr ''done''))), self)"
| "examples RemovesThenFails request kwargs self =
     (CallReturned (\<lambda>s. (Raised (PyExc Exception ''boom''), snd (remove_command s 7))), self)"

definition demo :: "example server" where
  "demo =
     \<lparr>node = ''n1'',
      commands = [7 \<mapsto> ReturnsOk, 8 \<mapsto> TakesX, 9 \<mapsto> Fails, 10 \<mapsto> Silent,
                  11 \<mapsto> Rejects, 12 \<mapsto> Exits, 14 \<mapsto> RepliesItself,
                  15 \<mapsto> RemovesThenFails, 16 \<mapsto> RepliesAndReturns],
      sent = []\<rparr>"

definition req :: "int \<Rightarrow> string option \<Rightarrow> request" where
  "req i a = \<lparr>command_index = i, data = [], address = a\<rparr>"

section \<open>The registry\<close>

lemma pop_fresh: "m i = None \<Longrightarrow> (m(i \<mapsto> f))(i := None) = m"
  by (simp add: fun_upd_idem)

text \<open>
  C9. \<open>register_command\<close> on an index that is already registered raises the
  \<^verbatim>\<open>ValueError\<close> for a duplicate index and leaves the server, and so the handler
  registered first, as it was; on a fresh index it stores the handler under the index
  and returns the index.
\<close>

theorem register_command_duplicate_or_fresh:
  "(commands self index = Some g \<longrightarrow>
      register_command self index fn =
        (Inl (ValueError ''Command with index %d already registered'' index), self) \<and>
      commands (snd (register_command self index fn)) index = Some g) \<and>
   (commands self index = None \<longrightarrow>
      register_command self index fn =
        (Inr index, self\<lparr>commands := (commands self)(index \<mapsto> fn)\<rparr>) \<and>
      commands (snd (register_command self index fn)) index = Some fn)"
  by (simp add: register_command_def)

theorem register_command_duplicate_or_fresh_witness:
  "commands demo 7 = Some ReturnsOk \<and>
   register_command demo 7 Silent =
     (Inl (ValueError ''Command with index %d already registered'' 7), demo) \<and>
   commands (snd (register_command demo 7 Silent)) 7 = Some ReturnsOk \<and>
   commands demo 13 = None \<and>
   fst (register_command demo 13 Silent) = Inr 13 \<and>
   commands (snd (register_command demo 13 Silent)) 13 = Some Silent"
proof -
  have dup: "commands demo 7 = Some ReturnsOk"
    by (simp add: demo_def)
  have fresh: "commands demo 13 = None"
    by (simp add: demo_def)
  show ?thesis
    using register_command_duplicate_or_fresh [of demo 7 ReturnsOk Silent]
      register_command_duplicate_or_fresh [of demo 13 ReturnsOk Silent] dup fresh
    by simp
qed

text \<open>
  C10. On an index that is not registered, \<open>register_command\<close> followed by
  \<open>remove_command\<close> of the same index succeeds, returns the handler just registered,
  and leaves the server, in particular its registry, as it was before the two calls.
\<close>

theorem register_then_remove:
  assumes "commands self i = None"
  shows "fst (register_command self i f) = Inr i \<and>
         remove_command (snd (register_command self i f)) i = (Inr f, self)"
proof -
  have reg: "register_command self i f = (Inr i, self\<lparr>commands := (commands self)(i \<mapsto> f)\<rparr>)"
    using assms by (simp add: register_command_def)
  have popped: "((commands self)(i \<mapsto> f))(i := None) = commands self"
    using assms by (rule pop_fresh)
  have "remove_command (self\<lparr>commands := (commands self)(i \<mapsto> f)\<rparr>) i =
          (Inr f, self\<lparr>commands := ((commands self)(i \<mapsto> f))(i := None)\<rparr>)"
    by (simp add: remove_command_def)
  also have "\<dots> = (Inr f, self)"
    by (simp only: popped) simp
  finally have rem: "remove_command (self\<lparr>commands := (commands self)(i \<mapsto> f)\<rparr>) i = (Inr f, self)" .
  show ?thesis
    by (simp only: reg fst_conv snd_conv rem)
qed

theorem register_then_remove_witness:
  "commands demo 13 = None \<and>
   fst (register_command demo 13 Silent) = Inr 13 \<and>
   remove_command (snd (register_command demo 13 Silent)) 13 = (Inr Silent, demo)"
proof -
  have fresh: "commands demo 13 = None"
    by (simp add: demo_def)
  show ?thesis
    using register_then_remove [OF fresh, of Silent] fresh by simp
qed

section \<open>The reply operation\<close>

lemma reply_cases:
  "reply self addr status d =
     (case addr of
        None \<Rightarrow> self
      | Some a \<Rightarrow>
          self\<lparr>sent := sent self @
            [Encoded ([(''s'', StatusValue status), (''n'', PyStr (node self)), (''a'', PyStr a)] @
                      (if d = NoValue then [] else [(''d'', d)]))]\<rparr>)"
  by (simp add: reply_def send_response_def dumps_def Let_def split: option.split)

lemma node_reply: "node (reply self addr status d) = node self"
  by (simp add: reply_cases split: option.split)

lemma commands_reply: "commands (reply self addr status d) = commands self"
  by (simp add: reply_cases split: option.split)

text \<open>
  C8. \<open>reply\<close> with no address returns the server as it is: nothing is sent, whatever
  the status and the data. With an address it sends one message whose payload has the
  status code's value under \<^verbatim>\<open>s\<close>, the node under \<^verbatim>\<open>n\<close> and the address under \<^verbatim>\<open>a\<close>,
  and has a field \<^verbatim>\<open>d\<close>, holding the data, exactly when the data is not \<open>NoValue\<close>.
\<close>

theorem reply_no_op_or_response:
  "reply self None status d = self \<and>
   (\<exists>payload.
      reply self (Some a) status d = self\<lparr>sent := sent self @ [Encoded payload]\<rparr> \<and>
      map_of payload ''s'' = Some (StatusValue status) \<and>
      map_of payload ''n'' = Some (PyStr (node self)) \<and>
      map_of payload ''a'' = Some (PyStr a) \<and>
      map_of payload ''d'' = (if d = NoValue then None else Some d))"
proof (intro conjI exI)
  let ?payload = "[(''s'', StatusValue status), (''n'', PyStr (node self)), (''a'', PyStr a)] @
                  (if d = NoValue then [] else [(''d'', d)])"
  show "reply self None status d = self"
    by (simp add: reply_cases)
  show "reply self (Some a) status d = self\<lparr>sent := sent self @ [Encoded ?payload]\<rparr>"
    by (simp add: reply_cases)
  show "map_of ?payload ''s'' = Some (StatusValue status)"
    by simp
  show "map_of ?payload ''n'' = Some (PyStr (node self))"
    by simp
  show "map_of ?payload ''a'' = Some (PyStr a)"
    by simp
  show "map_of ?payload ''d'' = (if d = NoValue then None else Some d)"
    by simp
qed

theorem reply_no_op_or_response_witness:
  "reply demo None INTERNAL_ERROR (PyStr ''boom'') = demo \<and>
   (\<exists>payload.
      sent (reply demo (Some ''A'') INTERNAL_ERROR (PyStr ''boom'')) = [Encoded payload] \<and>
      map_of payload ''s'' = Some (StatusValue INTERNAL_ERROR) \<and>
      map_of payload ''n'' = Some (PyStr ''n1'') \<and>
      map_of payload ''a'' = Some (PyStr ''A'') \<and>
      map_of payload ''d'' = Some (PyStr ''boom'')) \<and>
   (\<exists>payload.
      sent (reply demo (Some ''A'') OK NoValue) = [Encoded payload] \<and>
      map_of payload ''d'' = None)"
proof -
  have n: "node demo = ''n1''" and s: "sent demo = []"
    by (simp_all add: demo_def)
  show ?thesis
    using reply_no_op_or_response [of demo INTERNAL_ERROR "PyStr ''boom''" "''A''"]
      reply_no_op_or_response [of demo OK NoValue "''A''"] n s
    by auto
qed

section \<open>Dispatch\<close>

lemma handle_unknown:
  "commands self (command_index request) = None \<Longrightarrow>
   handle_request code self request =
     (None, reply self (address request) UNKNOWN_COMMAND NoValue)"
  by (simp add: handle_request_def reply_with_status_def)

lemma handle_call_raised:
  "commands self (command_index request) = Some fn \<Longrightarrow>
   code fn request (data request) self = (CallRaised e, self') \<Longrightarrow>
   handle_request code self request =
     (if exc_class e = TypeError
      then (None, reply self' (address request) BAD_PARAMS (PyStr (exc_str e)))
      else (Some e, self'))"
  by (simp add: handle_request_def reply_with_status_def)

lemma handle_await_raised:
  "commands self (command_index request) = Some fn \<Longrightarrow>
   code fn request (data request) self = (CallReturned command, self') \<Longrightarrow>
   command self' = (Raised e, self'') \<Longrightarrow>
   handle_request code self request =
     (if exc_class e \<noteq> BaseException
      then (None, reply self'' (address request) INTERNAL_ERROR (PyStr (exc_str e)))
      else (Some e, self''))"
  by (simp add: handle_request_def reply_with_status_def)

lemma handle_returned:
  "commands self (command_index request) = Some fn \<Longrightarrow>
   code fn request (data request) self = (CallReturned command, self') \<Longrightarrow>
   command self' = (Returned v, self'') \<Longrightarrow>
   handle_request code self request =
     (if v = PyNone then (None, self'')
      else (None, reply self'' (address request) OK v))"
  by (simp add: handle_request_def reply_with_status_def request_reply_def)

lemma after_handler_unknown:
  "commands self (command_index request) = None \<Longrightarrow> after_handler code self request = self"
  by (simp add: after_handler_def)

lemma after_handler_call_raised:
  "commands self (command_index request) = Some fn \<Longrightarrow>
   code fn request (data request) self = (CallRaised e, self') \<Longrightarrow>
   after_handler code self request = self'"
  by (simp add: after_handler_def)

lemma after_handler_awaited:
  "commands self (command_index request) = Some fn \<Longrightarrow>
   code fn request (data request) self = (CallReturned command, self') \<Longrightarrow>
   command self' = (r, self'') \<Longrightarrow>
   after_handler code self request = self''"
  by (simp add: after_handler_def)

lemma sent_reply:
  "sent (reply self addr status d) =
     (case addr of
        None \<Rightarrow> sent self
      | Some a \<Rightarrow>
          sent self @
            [Encoded ([(''s'', StatusValue status), (''n'', PyStr (node self)), (''a'', PyStr a)] @
                      (if d = NoValue then [] else [(''d'', d)]))])"
  by (simp add: reply_cases split: option.split)

lemma demo_facts:
  "node demo = ''n1''" "sent demo = []"
  "commands demo 7 = Some ReturnsOk" "commands demo 8 = Some TakesX"
  "commands demo 9 = Some Fails" "commands demo 10 = Some Silent"
  "commands demo 11 = Some Rejects" "commands demo 12 = Some Exits"
  "commands demo 13 = None" "commands demo 14 = Some RepliesItself"
  "commands demo 15 = Some RemovesThenFails" "commands demo 16 = Some RepliesAndReturns"
  by (simp_all add: demo_def)

lemma req_facts:
  "command_index (req i a) = i" "data (req i a) = []" "address (req i a) = a"
  by (simp_all add: req_def)

text \<open>The example requests evaluated: what \<open>handle_request\<close> returns for each.\<close>

lemma demo_unknown:
  "handle_request examples demo (req 13 a) = (None, reply demo a UNKNOWN_COMMAND NoValue)"
  by (simp add: handle_unknown demo_facts req_facts)

lemma demo_returns_ok:
  "handle_request examples demo (req 7 a) =
     (None, reply demo a OK (PyDict [(''ok'', PyBool True)]))"
  by (simp add: handle_request_def reply_with_status_def request_reply_def demo_facts req_facts)

lemma demo_takes_x:
  "handle_request examples demo (req 8 a) =
     (None, reply demo a BAD_PARAMS (PyStr ''missing 1 required positional argument''))"
  by (simp add: handle_request_def reply_with_status_def demo_facts req_facts)

lemma demo_fails:
  "handle_request examples demo (req 9 a) = (None, reply demo a INTERNAL_ERROR (PyStr ''boom''))"
  by (simp add: handle_request_def reply_with_status_def demo_facts req_facts)

lemma demo_silent:
  "handle_request examples demo (req 10 a) = (None, demo)"
  by (simp add: handle_request_def demo_facts req_facts)

lemma demo_rejects:
  "handle_request examples demo (req 11 a) = (Some (PyExc Exception ''rejected''), demo)"
  by (simp add: handle_request_def demo_facts req_facts)

lemma demo_exits:
  "handle_request examples demo (req 12 a) = (Some (PyExc BaseException ''bye''), demo)"
  by (simp add: handle_request_def demo_facts req_facts)

lemma demo_replies_itself:
  "handle_request examples demo (req 14 a) = (None, reply demo a OK (PyStr ''done''))"
  by (simp add: handle_request_def request_reply_def reply_with_status_def demo_facts req_facts)

lemma demo_replies_and_returns:
  "handle_request examples demo (req 16 a) =
     (None, reply (reply demo a OK (PyStr ''done'')) a OK (PyStr ''ok''))"
  by (simp add: handle_request_def request_reply_def reply_with_status_def demo_facts req_facts)

lemma demo_removes_then_fails:
  "handle_request examples demo (req 15 a) =
     (None, reply (snd (remove_command demo 7)) a INTERNAL_ERROR (PyStr ''boom''))"
  by (simp add: handle_request_def reply_with_status_def demo_facts req_facts)

text \<open>
  C3. When no handler is registered for the request's command index, \<open>handle_request\<close>
  returns normally after one reply with status \<open>UNKNOWN_COMMAND\<close> and no data: a request
  with an address gets exactly one message, with the fields \<^verbatim>\<open>s\<close>, \<^verbatim>\<open>n\<close> and \<^verbatim>\<open>a\<close>
  and no field \<^verbatim>\<open>d\<close>; for a request without an address nothing is sent.
\<close>

theorem handle_request_unknown_command:
  assumes "commands self (command_index request) = None"
  shows "handle_request code self request =
     (None,
      case address request of
        None \<Rightarrow> self
      | Some a \<Rightarrow>
          self\<lparr>sent := sent self @
            [Encoded [(''s'', StatusValue UNKNOWN_COMMAND), (''n'', PyStr (node self)),
                      (''a'', PyStr a)]]\<rparr>)"
  using handle_unknown [OF assms, of code] by (simp add: reply_cases split: option.split)

theorem handle_request_unknown_command_witness:
  "commands demo (command_index (req 13 (Some ''A''))) = None \<and>
   handle_request examples demo (req 13 (Some ''A'')) =
     (None,
      demo\<lparr>sent :=
        [Encoded [(''s'', StatusValue UNKNOWN_COMMAND), (''n'', PyStr ''n1''),
                  (''a'', PyStr ''A'')]]\<rparr>)"
proof -
  have unknown: "commands demo (command_index (req 13 (Some ''A''))) = None"
    by (simp add: demo_facts req_facts)
  show ?thesis
    using handle_request_unknown_command [OF unknown, of examples] unknown
    by (simp add: demo_facts req_facts)
qed

text \<open>
  An instance where no response follows an unknown command: the request has no address.
\<close>

theorem unknown_command_without_address:
  "commands demo (command_index (req 13 None)) = None \<and>
   address (req 13 None) = None \<and>
   sent (snd (handle_request examples demo (req 13 None))) = sent demo"
  by (simp add: demo_unknown reply_cases demo_facts req_facts)

text \<open>
  C4. When the call of the registered handler with the payload's fields raises
  \<^verbatim>\<open>TypeError\<close>, which is how a payload that does not bind to the handler's parameters
  shows, \<open>handle_request\<close> replies with status \<open>BAD_PARAMS\<close> and the exception's message
  as data, and returns. The call produced no object to await, and the result depends on
  the raised exception and the server after the call only; a binding failure raises
  before any handler code runs, so that server is the one dispatch started with.
\<close>

theorem handle_request_bad_params:
  assumes "commands self (command_index request) = Some fn"
    and "code fn request (data request) self = (CallRaised e, self')"
    and "exc_class e = TypeError"
  shows "handle_request code self request =
           (None, reply self' (address request) BAD_PARAMS (PyStr (exc_str e))) \<and>
         snd (handle_request code self request) =
           (case address request of
              None \<Rightarrow> self'
            | Some a \<Rightarrow>
                self'\<lparr>sent := sent self' @
                  [Encoded [(''s'', StatusValue BAD_PARAMS), (''n'', PyStr (node self')),
                            (''a'', PyStr a), (''d'', PyStr (exc_str e))]]\<rparr>)"
  using handle_call_raised [where code = code, OF assms(1,2)] assms(3)
  by (simp add: reply_cases split: option.split)

theorem handle_request_bad_params_witness:
  "commands demo (command_index (req 8 (Some ''A''))) = Some TakesX \<and>
   examples TakesX (req 8 (Some ''A'')) (data (req 8 (Some ''A''))) demo =
     (CallRaised (PyExc TypeError ''missing 1 required positional argument''), demo) \<and>
   handle_request examples demo (req 8 (Some ''A'')) =
     (None,
      demo\<lparr>sent :=
        [Encoded [(''s'', StatusValue BAD_PARAMS), (''n'', PyStr ''n1''), (''a'', PyStr ''A''),
                  (''d'', PyStr ''missing 1 required positional argument'')]]\<rparr>)"
proof -
  have registered: "commands demo (command_index (req 8 (Some ''A''))) = Some TakesX"
    by (simp add: demo_facts req_facts)
  have unbound: "examples TakesX (req 8 (Some ''A'')) (data (req 8 (Some ''A''))) demo =
      (CallRaised (PyExc TypeError ''missing 1 required positional argument''), demo)"
    by (simp add: req_facts)
  have cls: "exc_class (PyExc TypeError ''missing 1 required positional argument'') = TypeError"
    by simp
  show ?thesis
    using handle_request_bad_params [where code = examples, OF registered unbound cls] registered
    by (simp add: reply_cases demo_facts req_facts)
qed

text \<open>
  C2. An exception leaves \<open>handle_request\<close> in two cases only: the call of the handler
  raises an exception that is not a \<^verbatim>\<open>TypeError\<close>, or awaiting its result raises an
  exception that does not derive from \<^verbatim>\<open>Exception\<close>. In every other case (no handler, a
  \<^verbatim>\<open>TypeError\<close> from the call, an \<^verbatim>\<open>Exception\<close> from the await, a returned value)
  \<open>handle_request\<close> returns normally.
\<close>

theorem handle_request_propagates_iff:
  "fst (handle_request code self request) = Some e \<longleftrightarrow>
     (\<exists>fn. commands self (command_index request) = Some fn \<and>
        ((\<exists>self'. code fn request (data request) self = (CallRaised e, self')) \<and>
           exc_class e \<noteq> TypeError \<or>
         (\<exists>command self' self''.
            code fn request (data request) self = (CallReturned command, self') \<and>
            command self' = (Raised e, self'')) \<and>
           exc_class e = BaseException))"
proof (cases "commands self (command_index request)")
  case None
  then show ?thesis
    by (simp add: handle_unknown)
next
  case (Some fn)
  obtain c self' where run: "code fn request (data request) self = (c, self')"
    by (cases "code fn request (data request) self")
  show ?thesis
  proof (cases c)
    case (CallRaised x)
    then show ?thesis
      using Some run by (auto simp: handle_call_raised)
  next
    case (CallReturned command)
    obtain r self'' where awaited: "command self' = (r, self'')"
      by (cases "command self'")
    show ?thesis
    proof (cases r)
      case (Raised x)
      then show ?thesis
        using Some run CallReturned awaited by (auto simp: handle_await_raised)
    next
      case (Returned v)
      then show ?thesis
        using Some run CallReturned awaited by (auto simp: handle_returned)
    qed
  qed
qed

theorem handle_request_propagates_iff_witness:
  "fst (handle_request examples demo (req 9 (Some ''A''))) = None \<and>
   fst (handle_request examples demo (req 8 (Some ''A''))) = None"
proof -
  have "fst (handle_request examples demo (req 9 (Some ''A''))) \<noteq> Some e" for e
    using handle_request_propagates_iff [of examples demo "req 9 (Some ''A'')" e]
    by (auto simp: demo_facts req_facts)
  moreover have "fst (handle_request examples demo (req 8 (Some ''A''))) \<noteq> Some e" for e
    using handle_request_propagates_iff [of examples demo "req 8 (Some ''A'')" e]
    by (auto simp: demo_facts req_facts)
  ultimately show ?thesis
    by (metis option.exhaust)
qed

text \<open>
  Two instances where an exception leaves \<open>handle_request\<close>. In the first the handler is
  a plain function that raises a \<^verbatim>\<open>ValueError\<close> when it is called, which
  \<^verbatim>\<open>except TypeError\<close> does not catch. In the second awaiting the handler raises a
  \<^verbatim>\<open>SystemExit\<close>, which \<^verbatim>\<open>except Exception\<close> does not catch.
\<close>

theorem handler_error_escapes:
  "commands demo (command_index (req 11 (Some ''A''))) = Some Rejects \<and>
   fst (examples Rejects (req 11 (Some ''A'')) (data (req 11 (Some ''A''))) demo) =
     CallRaised (PyExc Exception ''rejected'') \<and>
   handle_request examples demo (req 11 (Some ''A'')) =
     (Some (PyExc Exception ''rejected''), demo) \<and>
   commands demo (command_index (req 12 (Some ''A''))) = Some Exits \<and>
   handle_request examples demo (req 12 (Some ''A'')) =
     (Some (PyExc BaseException ''bye''), demo)"
  by (simp add: demo_rejects demo_exits demo_facts req_facts)

text \<open>
  C6. When the awaited result of the handler is \<^verbatim>\<open>None\<close>, \<open>handle_request\<close> returns
  normally and the server is exactly as the handler left it: \<open>handle_request\<close> itself
  sends nothing, whether or not the request has an address. What the transport holds
  afterwards is what it held when the handler finished, including a reply the handler
  has sent itself.
\<close>

theorem handle_request_returns_none:
  assumes "commands self (command_index request) = Some fn"
    and "code fn request (data request) self = (CallReturned command, self')"
    and "command self' = (Returned PyNone, self'')"
  shows "handle_request code self request = (None, self'') \<and>
         sent (snd (handle_request code self request)) =
           sent (after_handler code self request)"
  using handle_returned [where code = code, OF assms]
    after_handler_awaited [where code = code, OF assms]
  by simp

theorem handle_request_returns_none_witness:
  "commands demo (command_index (req 10 (Some ''A''))) = Some Silent \<and>
   address (req 10 (Some ''A'')) = Some ''A'' \<and>
   handle_request examples demo (req 10 (Some ''A'')) = (None, demo) \<and>
   commands demo (command_index (req 14 (Some ''A''))) = Some RepliesItself \<and>
   handle_request examples demo (req 14 (Some ''A'')) =
     (None, request_reply demo (req 14 (Some ''A'')) (PyStr ''done'')) \<and>
   sent (snd (handle_request examples demo (req 14 (Some ''A'')))) =
     [Encoded [(''s'', StatusValue OK), (''n'', PyStr ''n1''), (''a'', PyStr ''A''),
               (''d'', PyStr ''done'')]]"
proof -
  have silent: "commands demo (command_index (req 10 (Some ''A''))) = Some Silent"
    and replies: "commands demo (command_index (req 14 (Some ''A''))) = Some RepliesItself"
    by (simp_all add: demo_facts req_facts)
  have "handle_request examples demo (req 10 (Some ''A'')) = (None, demo)"
    using handle_request_returns_none
      [where code = examples and command = "\<lambda>s. (Returned PyNone, s)", OF silent]
    by simp
  moreover have "handle_request examples demo (req 14 (Some ''A'')) =
      (None, request_reply demo (req 14 (Some ''A'')) (PyStr ''done''))"
    using handle_request_returns_none
      [where code = examples
         and command = "\<lambda>s. (Returned PyNone, request_reply s (req 14 (Some ''A'')) (PyStr ''done''))",
       OF replies]
    by simp
  ultimately show ?thesis
    using silent replies
    by (simp add: request_reply_def reply_with_status_def reply_cases demo_facts req_facts)
qed

text \<open>
  C7. When the awaited result of the handler is a value other than \<^verbatim>\<open>None\<close>,
  \<open>handle_request\<close> returns normally after one reply with status \<open>OK\<close> and the result as
  data, made on the server as the handler left it: a request with an address gets
  exactly one message from \<open>handle_request\<close>, whose field \<^verbatim>\<open>d\<close> is the result (and is
  left out when the result is \<open>NoValue\<close>); for a request without an address
  \<open>handle_request\<close> sends nothing.
\<close>

theorem handle_request_success:
  assumes "commands self (command_index request) = Some fn"
    and "code fn request (data request) self = (CallReturned command, self')"
    and "command self' = (Returned v, self'')"
    and "v \<noteq> PyNone"
  shows "handle_request code self request =
           (None,
            case address request of
              None \<Rightarrow> self''
            | Some a \<Rightarrow>
                self''\<lparr>sent := sent self'' @
                  [Encoded ([(''s'', StatusValue OK), (''n'', PyStr (node self'')),
                             (''a'', PyStr a)] @
                            (if v = NoValue then [] else [(''d'', v)]))]\<rparr>) \<and>
         after_handler code self request = self''"
proof -
  have "handle_request code self request = (None, reply self'' (address request) OK v)"
    using handle_returned [where code = code, OF assms(1,2,3)] assms(4) by simp
  then show ?thesis
    using after_handler_awaited [where code = code, OF assms(1,2,3)]
    by (simp add: reply_cases split: option.split)
qed

theorem handle_request_success_witness:
  "commands demo (command_index (req 7 (Some ''A''))) = Some ReturnsOk \<and>
   handle_request examples demo (req 7 (Some ''A'')) =
     (None,
      demo\<lparr>sent :=
        [Encoded [(''s'', StatusValue OK), (''n'', PyStr ''n1''), (''a'', PyStr ''A''),
                  (''d'', PyDict [(''ok'', PyBool True)])]]\<rparr>)"
proof -
  have registered: "commands demo (command_index (req 7 (Some ''A''))) = Some ReturnsOk"
    by (simp add: demo_facts req_facts)
  have result: "PyDict [(''ok'', PyBool True)] \<noteq> PyNone"
    by simp
  show ?thesis
    using handle_request_success
      [where code = examples and self' = demo and self'' = demo
         and command = "\<lambda>s. (Returned (PyDict [(''ok'', PyBool True)]), s)",
       OF registered _ _ result] registered
    by (simp add: demo_facts req_facts)
qed

text \<open>
  An instance where a returned value is not followed by a response: the request has no
  address.
\<close>

theorem success_without_address:
  "commands demo (command_index (req 7 None)) = Some ReturnsOk \<and>
   address (req 7 None) = None \<and>
   sent (snd (handle_request examples demo (req 7 None))) = sent demo"
  by (simp add: demo_returns_ok reply_cases demo_facts req_facts)

text \<open>
  C5. When awaiting the handler's result raises an exception that derives from
  \<^verbatim>\<open>Exception\<close>, \<open>handle_request\<close> returns normally after one reply with status
  \<open>INTERNAL_ERROR\<close> and the exception's message as data, made on the server as the
  handler left it: a request with an address gets exactly one message from
  \<open>handle_request\<close>, for a request without an address it sends nothing. The node and the
  command registry are as the handler left them: \<open>handle_request\<close> itself changes
  neither.
\<close>

theorem handle_request_internal_error:
  assumes "commands self (command_index request) = Some fn"
    and "code fn request (data request) self = (CallReturned command, self')"
    and "command self' = (Raised e, self'')"
    and "exc_class e \<noteq> BaseException"
  shows "handle_request code self request =
           (None,
            case address request of
              None \<Rightarrow> self''
            | Some a \<Rightarrow>
                self''\<lparr>sent := sent self'' @
                  [Encoded [(''s'', StatusValue INTERNAL_ERROR), (''n'', PyStr (node self'')),
                            (''a'', PyStr a), (''d'', PyStr (exc_str e))]]\<rparr>) \<and>
         after_handler code self request = self'' \<and>
         node (snd (handle_request code self request)) = node self'' \<and>
         commands (snd (handle_request code self request)) = commands self''"
proof -
  have "handle_request code self request =
          (None, reply self'' (address request) INTERNAL_ERROR (PyStr (exc_str e)))"
    using handle_await_raised [where code = code, OF assms(1,2,3)] assms(4) by simp
  then show ?thesis
    using after_handler_awaited [where code = code, OF assms(1,2,3)]
    by (simp add: reply_cases split: option.split)
qed

theorem handle_request_internal_error_witness:
  "commands demo (command_index (req 9 (Some ''A''))) = Some Fails \<and>
   handle_request examples demo (req 9 (Some ''A'')) =
     (None,
      demo\<lparr>sent :=
        [Encoded [(''s'', StatusValue INTERNAL_ERROR), (''n'', PyStr ''n1''),
                  (''a'', PyStr ''A''), (''d'', PyStr ''boom'')]]\<rparr>)"
proof -
  have registered: "commands demo (command_index (req 9 (Some ''A''))) = Some Fails"
    by (simp add: demo_facts req_facts)
  have cls: "exc_class (PyExc Exception ''boom'') \<noteq> BaseException"
    by simp
  show ?thesis
    using handle_request_internal_error
      [where code = examples and self' = demo and self'' = demo
         and command = "\<lambda>s. (Raised (PyExc Exception ''boom''), s)",
       OF registered _ _ cls] registered
    by (simp add: demo_facts req_facts)
qed

text \<open>
  Three instances where a failing await does not end with one response and an unchanged
  registry. The request of the first has no
  address, and nothing is sent. In the second the exception is a \<^verbatim>\<open>SystemExit\<close>, which
  \<^verbatim>\<open>except Exception\<close> does not catch, so it leaves \<open>handle_request\<close> and nothing is
  sent. In the third the handler removes command 7 from the registry before it raises,
  and the registry stays changed after the reply.
\<close>

theorem internal_error_without_response:
  "commands demo (command_index (req 9 None)) = Some Fails \<and>
   address (req 9 None) = None \<and>
   sent (snd (handle_request examples demo (req 9 None))) = sent demo \<and>
   commands demo (command_index (req 12 (Some ''A''))) = Some Exits \<and>
   handle_request examples demo (req 12 (Some ''A'')) =
     (Some (PyExc BaseException ''bye''), demo) \<and>
   commands demo (command_index (req 15 (Some ''A''))) = Some RemovesThenFails \<and>
   fst (handle_request examples demo (req 15 (Some ''A''))) = None \<and>
   commands demo 7 = Some ReturnsOk \<and>
   commands (snd (handle_request examples demo (req 15 (Some ''A'')))) 7 = None"
  by (simp add: demo_fails demo_exits demo_removes_then_fails reply_cases commands_reply
      remove_command_def demo_facts req_facts)

text \<open>
  C1. What \<open>handle_request\<close> itself sends, after the handler has run, is decided by the
  request's address and the handler's outcome. Without an address it sends nothing. With
  an address it sends exactly one message, except that it sends none in three cases: the
  call of the handler raises an exception that is not a \<^verbatim>\<open>TypeError\<close>, the await raises
  an exception that does not derive from \<^verbatim>\<open>Exception\<close>, or the awaited result is
  \<^verbatim>\<open>None\<close>.
\<close>

theorem handle_request_responses:
  "(address request = None \<longrightarrow>
      sent (snd (handle_request code self request)) = sent (after_handler code self request)) \<and>
   (\<forall>a. address request = Some a \<longrightarrow>
      (if \<exists>fn. commands self (command_index request) = Some fn \<and>
            (case code fn request (data request) self of
               (CallRaised e, self') \<Rightarrow> exc_class e \<noteq> TypeError
             | (CallReturned command, self') \<Rightarrow>
                 (case fst (command self') of
                    Raised e \<Rightarrow> exc_class e = BaseException
                  | Returned v \<Rightarrow> v = PyNone))
       then sent (snd (handle_request code self request)) =
              sent (after_handler code self request)
       else (\<exists>msg. sent (snd (handle_request code self request)) =
              sent (after_handler code self request) @ [msg])))"
proof (cases "commands self (command_index request)")
  case None
  then show ?thesis
    by (simp add: handle_unknown after_handler_unknown sent_reply split: option.split)
next
  case (Some fn)
  obtain c self' where run: "code fn request (data request) self = (c, self')"
    by (cases "code fn request (data request) self")
  show ?thesis
  proof (cases c)
    case (CallRaised x)
    then have "code fn request (data request) self = (CallRaised x, self')"
      using run by simp
    then show ?thesis
      using Some
      by (simp add: handle_call_raised [where code = code]
          after_handler_call_raised [where code = code] sent_reply split: option.split)
  next
    case (CallReturned command)
    then have called: "code fn request (data request) self = (CallReturned command, self')"
      using run by simp
    obtain r self'' where awaited: "command self' = (r, self'')"
      by (cases "command self'")
    have after: "after_handler code self request = self''"
      using Some called awaited by (rule after_handler_awaited)
    show ?thesis
    proof (cases r)
      case (Raised x)
      then show ?thesis
        using Some called awaited after
        by (simp add: handle_await_raised [where code = code] sent_reply split: option.split)
    next
      case (Returned v)
      then show ?thesis
        using Some called awaited after
        by (simp add: handle_returned [where code = code] sent_reply split: option.split)
    qed
  qed
qed

theorem handle_request_responses_witness:
  "address (req 7 (Some ''A'')) = Some ''A'' \<and>
   (\<exists>msg. sent (snd (handle_request examples demo (req 7 (Some ''A'')))) =
      sent (after_handler examples demo (req 7 (Some ''A''))) @ [msg]) \<and>
   after_handler examples demo (req 7 (Some ''A'')) = demo \<and>
   address (req 7 None) = None \<and>
   sent (snd (handle_request examples demo (req 7 None))) =
     sent (after_handler examples demo (req 7 None))"
  using handle_request_responses [of "req 7 (Some ''A'')" examples demo]
    handle_request_responses [of "req 7 None" examples demo]
  by (simp add: after_handler_def demo_facts req_facts)

text \<open>
  Four instances where a request with an address does not get exactly one response. The
  handler of the first returns \<^verbatim>\<open>None\<close>, and nothing is sent. The handler of the second
  raises a \<^verbatim>\<open>ValueError\<close> when it is called, and that of the third a \<^verbatim>\<open>SystemExit\<close>
  when it is awaited; either exception leaves \<open>handle_request\<close> and nothing is sent. The
  handler of the fourth replies itself and then returns a value, and two messages are
  sent.
\<close>

theorem address_without_response:
  "address (req 10 (Some ''A'')) = Some ''A'' \<and>
   commands demo (command_index (req 10 (Some ''A''))) = Some Silent \<and>
   handle_request examples demo (req 10 (Some ''A'')) = (None, demo) \<and>
   commands demo (command_index (req 11 (Some ''A''))) = Some Rejects \<and>
   handle_request examples demo (req 11 (Some ''A'')) =
     (Some (PyExc Exception ''rejected''), demo) \<and>
   commands demo (command_index (req 12 (Some ''A''))) = Some Exits \<and>
   handle_request examples demo (req 12 (Some ''A'')) =
     (Some (PyExc BaseException ''bye''), demo) \<and>
   commands demo (command_index (req 16 (Some ''A''))) = Some RepliesAndReturns \<and>
   sent (snd (handle_request examples demo (req 16 (Some ''A'')))) =
     [Encoded [(''s'', StatusValue OK), (''n'', PyStr ''n1''), (''a'', PyStr ''A''),
               (''d'', PyStr ''done'')],
      Encoded [(''s'', StatusValue OK), (''n'', PyStr ''n1''), (''a'', PyStr ''A''),
               (''d'', PyStr ''ok'')]] \<and>
   sent demo = []"
  by (simp add: demo_silent demo_rejects demo_exits demo_replies_and_returns reply_cases
      demo_facts req_facts)

end
